theory Spec2Isabelle
  imports Complex_Main
begin

section \<open>The host map widget\<close>

text \<open>
  The clustering adapter \<^verbatim>\<open>FasterSuperClusterAlgorithm\<close> talks to two collaborators
  that are not part of the repository: the map widget (markers, zoom, bounds) and the
  point index of the \<^verbatim>\<open>supercluster\<close> library. Their values are modelled as data, their
  behaviour as parameters.

  JavaScript numbers are modelled as \<^typ>\<open>real\<close>; NaN and the infinities are outside the
  model. A \<^verbatim>\<open>google.maps.LatLng\<close> is its pair of coordinates.
\<close>

record latlng =
  lat :: real
  lng :: real

text \<open>
  A marker is a mutable host object: the caller may move it (\<^verbatim>\<open>setPosition\<close>) between two
  calls. What a marker object holds at one moment is a \<open>marker\<close> value: the position it
  reports together with the rest of its own data, for which \<open>label\<close> stands. The object
  itself is a reference \<open>mref\<close>, and the store \<open>mref \<Rightarrow> marker\<close> says what every object
  holds.
\<close>

datatype marker = Marker (label: string) (getPosition: latlng)

type_synonym mref = nat

record bounds =
  west :: real
  south :: real
  east :: real
  north :: real

text \<open>What the map reports: \<^verbatim>\<open>map.getZoom()\<close> and \<^verbatim>\<open>map.getBounds().toJSON()\<close>.\<close>

record gmap =
  getZoom :: real
  getBounds :: bounds

text \<open>
  \<^verbatim>\<open>AlgorithmInput\<close>: the array of marker objects and the map, together with what the
  marker objects hold when the call is made.
\<close>

record algorithm_input =
  markers_in :: "mref list"
  objects :: "mref \<Rightarrow> marker"
  map_in :: gmap

type_synonym BoundingBox = "real \<times> real \<times> real \<times> real"

section \<open>The point index\<close>

text \<open>
  A point record as \<^verbatim>\<open>calculate\<close> builds it:
  \<^verbatim>\<open>{type: "Feature", geometry: {type: "Point", coordinates: [lng, lat]}, properties: {marker}}\<close>.
  The coordinates are numbers read when the record is built; \<^verbatim>\<open>properties.marker\<close> is the
  marker object.
\<close>

record point =
  coordinates :: "real \<times> real"
  marker_p :: mref

text \<open>
  A result of \<^verbatim>\<open>getClusters\<close>: \<^verbatim>\<open>properties.cluster\<close> tells an aggregate, which carries
  \<^verbatim>\<open>cluster_id\<close>, from a plain point, which carries \<^verbatim>\<open>properties.marker\<close>. Both carry
  \<^verbatim>\<open>geometry.coordinates = [lng, lat]\<close>.
\<close>

datatype feature =
    PointFeature "real \<times> real" mref
  | ClusterFeature "real \<times> real" nat

text \<open>The calls that \<^verbatim>\<open>calculate\<close> makes on the index, in the order it makes them.\<close>

datatype call =
    Load "point list"
  | GetClusters BoundingBox int
  | GetLeaves nat

text \<open>
  The index object \<^verbatim>\<open>this.superCluster\<close>: the point set that the last \<^verbatim>\<open>load\<close> gave it,
  and the log of the calls it has received.
\<close>

record supercluster =
  points :: "point list"
  calls :: "call list"

text \<open>
  The answers of the library, a parameter of the model: each query is a function of the
  loaded point set (the library's options \<^verbatim>\<open>maxZoom\<close>, \<^verbatim>\<open>radius\<close> are fixed in it).
  \<^verbatim>\<open>getClusterExpansionZoom\<close> receives \<^verbatim>\<open>cluster.id\<close>, which is absent on a leaf, and
  answers \<open>None\<close> where the library throws.
\<close>

record library =
  getClusters :: "point list \<Rightarrow> BoundingBox \<Rightarrow> int \<Rightarrow> feature list"
  getLeaves :: "point list \<Rightarrow> nat \<Rightarrow> point list"
  getClusterExpansionZoom :: "point list \<Rightarrow> nat option \<Rightarrow> real option"

definition load :: "point list \<Rightarrow> supercluster \<Rightarrow> supercluster" where
  "load ps sc = sc\<lparr>points := ps, calls := calls sc @ [Load ps]\<rparr>"

section \<open>Clusters\<close>

text \<open>
  Modelled from the spec: the class \<^verbatim>\<open>Cluster\<close> of \<^verbatim>\<open>../cluster\<close> is not among the
  sources. The spec gives it a position, the list of member markers and
  \<open>count = number of member markers\<close>. \<^verbatim>\<open>SuperClusterCluster\<close> adds the optional \<^verbatim>\<open>id\<close>.
\<close>

record cluster =
  cluster_id :: "nat option"
  cluster_markers :: "mref list"
  position :: latlng

definition count :: "cluster \<Rightarrow> nat" where
  "count c = length (cluster_markers c)"

text \<open>Decimal digits of a count, as the template string prints it.\<close>

fun decimal :: "nat \<Rightarrow> string" where
  "decimal n =
     (if n < 10 then [''0123456789'' ! n]
      else decimal (n div 10) @ [''0123456789'' ! (n mod 10)])"

declare decimal.simps [simp del]

text \<open>
  \<^verbatim>\<open>get summary() { return `${this.position} ${this.count}` }\<close>. The rendering of a
  position is the host's \<^verbatim>\<open>LatLng.toString\<close>, a parameter \<open>str\<close>.
\<close>

definition summary :: "(latlng \<Rightarrow> string) \<Rightarrow> cluster \<Rightarrow> string" where
  "summary str c = str (position c) @ '' '' @ decimal (count c)"

text \<open>
  \<^verbatim>\<open>SuperClusterCluster.expansionZoom\<close> (\<^verbatim>\<open>fastersupercluster.ts\<close>): the cluster holds
  a reference to the index, so the query is answered by the index \<open>sc\<close> as it is when the
  getter runs; \<^verbatim>\<open>Math.min(clusterZoom, 20)\<close>.
\<close>

definition expansionZoom :: "library \<Rightarrow> supercluster \<Rightarrow> cluster \<Rightarrow> real option" where
  "expansionZoom lib sc c =
     (case getClusterExpansionZoom lib (points sc) (cluster_id c) of
        None \<Rightarrow> None
      | Some clusterZoom \<Rightarrow> Some (min clusterZoom 20))"

section \<open>The engine\<close>

text \<open>\<^verbatim>\<open>this.state\<close>: the zoom is \<^verbatim>\<open>null\<close> until the first call.\<close>

record viewstate =
  zoom :: "real option"
  boundingBox :: BoundingBox

text \<open>
  The array that \<^verbatim>\<open>cluster\<close> returns is a new object each time. An array object is its
  allocation number \<open>ref\<close> and its elements; the engine never writes into one.
\<close>

record cluster_array =
  ref :: nat
  elems :: "cluster list"

text \<open>
  The fields of \<^verbatim>\<open>FasterSuperClusterAlgorithm\<close>. \<^verbatim>\<open>markers\<close> and \<^verbatim>\<open>clusters\<close> are
  \<^verbatim>\<open>undefined\<close> until the first call. \<^verbatim>\<open>this.markers = [...input.markers]\<close> copies the
  array, not the markers: the field holds the caller's marker objects. \<open>next_ref\<close> counts
  the cluster arrays allocated so far.
\<close>

record engine =
  maxZoom :: real
  superCluster :: supercluster
  markers :: "mref list option"
  clusters :: "cluster_array option"
  state :: viewstate
  next_ref :: nat

text \<open>\<^verbatim>\<open>AlgorithmOutput\<close>.\<close>

record algorithm_output =
  clusters_out :: "cluster_array option"
  changed :: bool

text \<open>
  The constructor. \<open>mz\<close> is the \<^verbatim>\<open>maxZoom\<close> that \<^verbatim>\<open>AbstractAlgorithm\<close> has stored.
\<close>

definition new_engine :: "real \<Rightarrow> engine" where
  "new_engine mz =
     \<lparr>maxZoom = mz,
      superCluster = \<lparr>points = [], calls = []\<rparr>,
      markers = None,
      clusters = None,
      state = \<lparr>zoom = None, boundingBox = (-180, -90, 180, 90)\<rparr>,
      next_ref = 0\<rparr>"

definition getBoundingBox :: "gmap \<Rightarrow> BoundingBox" where
  "getBoundingBox m =
     (let bounds = getBounds m in (west bounds, south bounds, east bounds, north bounds))"

text \<open>\<^verbatim>\<open>Math.round\<close>: the nearest integer, a half going up.\<close>

definition round_js :: "real \<Rightarrow> int" where
  "round_js x = \<lfloor>x + 1 / 2\<rfloor>"

text \<open>\<^verbatim>\<open>this.state.zoom > this.maxZoom\<close>: JavaScript compares \<^verbatim>\<open>null\<close> as 0.\<close>

definition gt_js :: "real option \<Rightarrow> real \<Rightarrow> bool" where
  "gt_js z m = (case z of None \<Rightarrow> 0 > m | Some v \<Rightarrow> v > m)"

text \<open>
  The point record of a marker (the \<^verbatim>\<open>map\<close> callback in \<^verbatim>\<open>calculate\<close>), built while the
  marker objects hold \<open>h\<close>.
\<close>

definition project :: "(mref \<Rightarrow> marker) \<Rightarrow> mref \<Rightarrow> point" where
  "project h marker =
     \<lparr>coordinates = (lng (getPosition (h marker)), lat (getPosition (h marker))),
      marker_p = marker\<rparr>"

text \<open>
  \<^verbatim>\<open>transformCluster\<close> (\<^verbatim>\<open>part_000\<close>; in \<^verbatim>\<open>fastersupercluster.ts\<close> the leaf is a plain
  \<^verbatim>\<open>Cluster\<close> with the same members and position). The coordinates \<^verbatim>\<open>[lng, lat]\<close> of the
  feature are \<open>(x, y)\<close>; \<^verbatim>\<open>marker.getPosition()\<close> reads the marker object as it is now, \<open>h\<close>.
\<close>

fun transformCluster ::
  "library \<Rightarrow> (mref \<Rightarrow> marker) \<Rightarrow> supercluster \<Rightarrow> feature \<Rightarrow> cluster" where
  "transformCluster lib h sc (ClusterFeature (x, y) cid) =
     \<lparr>cluster_id = Some cid,
      cluster_markers = map marker_p (getLeaves lib (points sc) cid),
      position = \<lparr>lat = y, lng = x\<rparr>\<rparr>"
| "transformCluster lib h sc (PointFeature (x, y) marker) =
     \<lparr>cluster_id = None,
      cluster_markers = [marker],
      position = getPosition (h marker)\<rparr>"

text \<open>The calls on the index that transforming one feature makes.\<close>

fun transform_calls :: "feature \<Rightarrow> call list" where
  "transform_calls (ClusterFeature xy cid) = [GetLeaves cid]"
| "transform_calls (PointFeature xy marker) = []"

text \<open>
  \<^verbatim>\<open>cluster\<close>: query the index at the rounded zoom and transform every result. Returns the
  clusters and the index with its log extended.
\<close>

definition cluster ::
  "library \<Rightarrow> (mref \<Rightarrow> marker) \<Rightarrow> supercluster \<Rightarrow> gmap \<Rightarrow> cluster list \<times> supercluster" where
  "cluster lib h sc m =
     (let bb = getBoundingBox m;
          z = round_js (getZoom m);
          fs = getClusters lib (points sc) bb z
      in (map (transformCluster lib h sc) fs,
          sc\<lparr>calls := calls sc @ GetClusters bb z # concat (map transform_calls fs)\<rparr>))"

text \<open>\<^verbatim>\<open>getExpansionZoom\<close> (\<^verbatim>\<open>part_000\<close>), on the engine.\<close>

definition getExpansionZoom :: "library \<Rightarrow> engine \<Rightarrow> cluster \<Rightarrow> real option" where
  "getExpansionZoom lib e c =
     (case getClusterExpansionZoom lib (points (superCluster e)) (cluster_id c) of
        None \<Rightarrow> None
      | Some clusterZoom \<Rightarrow> Some (min clusterZoom 20))"

text \<open>
  The three decisions of \<^verbatim>\<open>calculate\<close>, named. \<open>differ\<close> is
  \<^verbatim>\<open>!deepEqual(input.markers, this.markers)\<close>: an array never equals \<^verbatim>\<open>undefined\<close>, and two
  arrays are deep-equal when they have the same length and, place by place, marker
  objects that hold equal data now. Both arrays are read in the same store, that of the
  call, so an object that is in both arrays equals itself whatever has been done to it.
  \<open>snapshot\<close> is the local \<^verbatim>\<open>state\<close>, the zoom as the map reports it, and its comparison
  by \<^verbatim>\<open>deepEqual\<close> is equality of the numbers; \<open>recompute\<close> is the value of \<^verbatim>\<open>changed\<close> when
  the statement \<^verbatim>\<open>if (changed)\<close> that guards the call of \<^verbatim>\<open>cluster\<close> tests it.
\<close>

definition differ :: "engine \<Rightarrow> algorithm_input \<Rightarrow> bool" where
  "differ e inp =
     (case markers e of
        None \<Rightarrow> True
      | Some stored \<Rightarrow> map (objects inp) (markers_in inp) \<noteq> map (objects inp) stored)"

definition snapshot :: "gmap \<Rightarrow> viewstate" where
  "snapshot m = \<lparr>zoom = Some (getZoom m), boundingBox = getBoundingBox m\<rparr>"

definition recompute :: "engine \<Rightarrow> algorithm_input \<Rightarrow> bool" where
  "recompute e inp =
     (if differ e inp then True
      else if gt_js (zoom (state e)) (maxZoom e) \<and> getZoom (map_in inp) > maxZoom e
      then False
      else state e \<noteq> snapshot (map_in inp))"

text \<open>
  \<^verbatim>\<open>calculate\<close>, statement by statement. \<^verbatim>\<open>shallowEqual\<close> of two arrays of strings is
  equality of the lists. An array is truthy also when it is empty, so
  \<^verbatim>\<open>clusters && this.clusters\<close> asks only whether \<^verbatim>\<open>this.clusters\<close> is defined.
\<close>

definition calculate ::
  "library \<Rightarrow> (latlng \<Rightarrow> string) \<Rightarrow> engine \<Rightarrow> algorithm_input \<Rightarrow> engine \<times> algorithm_output" where
  "calculate lib str e inp =
     (let changed1 = recompute e inp;
          e1 = (if differ e inp
                then e\<lparr>markers := Some (markers_in inp),
                       superCluster :=
                         load (map (project (objects inp)) (markers_in inp)) (superCluster e)\<rparr>
                else e);
          e2 = e1\<lparr>state := snapshot (map_in inp)\<rparr>
      in if changed1
         then (let (cs, sc) = cluster lib (objects inp) (superCluster e2) (map_in inp);
                   changed2 = (case clusters e2 of
                                 None \<Rightarrow> True
                               | Some old \<Rightarrow>
                                   map (summary str) cs \<noteq> map (summary str) (elems old));
                   e3 = e2\<lparr>superCluster := sc,
                           clusters := Some \<lparr>ref = next_ref e2, elems = cs\<rparr>,
                           next_ref := Suc (next_ref e2)\<rparr>
               in (e3, \<lparr>clusters_out = clusters e3, changed = changed2\<rparr>))
         else (e2, \<lparr>clusters_out = clusters e2, changed = False\<rparr>))"

text \<open>A sequence of calls on one engine.\<close>

definition run ::
  "library \<Rightarrow> (latlng \<Rightarrow> string) \<Rightarrow> engine \<Rightarrow> algorithm_input list \<Rightarrow> engine" where
  "run lib str e inps = foldl (\<lambda>e' inp. fst (calculate lib str e' inp)) e inps"

text \<open>The calls that the index has received since it was in state \<open>sc\<close>.\<close>

definition new_calls :: "supercluster \<Rightarrow> supercluster \<Rightarrow> call list" where
  "new_calls sc sc' = drop (length (calls sc)) (calls sc')"

fun is_load :: "call \<Rightarrow> bool" where
  "is_load (Load ps) = True"
| "is_load (GetClusters bb z) = False"
| "is_load (GetLeaves i) = False"

fun is_query :: "call \<Rightarrow> bool" where
  "is_query (Load ps) = False"
| "is_query (GetClusters bb z) = True"
| "is_query (GetLeaves i) = False"

section \<open>Reference collaborators\<close>

text \<open>
  An index whose points lie too far apart to be merged at any zoom: a query returns every
  loaded point inside the box, as itself, and there are no aggregates.
\<close>

definition inside :: "BoundingBox \<Rightarrow> point \<Rightarrow> bool" where
  "inside bb p =
     (case bb of (w, s, e, n) \<Rightarrow>
        (case coordinates p of (x, y) \<Rightarrow> w \<le> x \<and> x \<le> e \<and> s \<le> y \<and> y \<le> n))"

definition isolated_index :: library where
  "isolated_index =
     \<lparr>getClusters =
        (\<lambda>ps bb z. map (\<lambda>p. PointFeature (coordinates p) (marker_p p)) (filter (inside bb) ps)),
      getLeaves = (\<lambda>ps i. []),
      getClusterExpansionZoom = (\<lambda>ps i. None)\<rparr>"

text \<open>
  A rendering of positions that prints the whole part of each coordinate, as
  \<^verbatim>\<open>LatLng.toString\<close> does for whole-numbered coordinates: \<^verbatim>\<open>(10, -20)\<close>.
\<close>

definition decimal_int :: "int \<Rightarrow> string" where
  "decimal_int i = (if i < 0 then ''-'' @ decimal (nat (- i)) else decimal (nat i))"

definition whole_toString :: "latlng \<Rightarrow> string" where
  "whole_toString p =
     ''('' @ decimal_int \<lfloor>lat p\<rfloor> @ '', '' @ decimal_int \<lfloor>lng p\<rfloor> @ '')''"

definition view_of :: "real \<Rightarrow> real \<Rightarrow> real \<Rightarrow> real \<Rightarrow> real \<Rightarrow> gmap" where
  "view_of z w s e n =
     \<lparr>getZoom = z, getBounds = \<lparr>west = w, south = s, east = e, north = n\<rparr>\<rparr>"

text \<open>The index after the first statement of \<^verbatim>\<open>calculate\<close>: reloaded if the markers differ.\<close>

definition reloaded :: "engine \<Rightarrow> algorithm_input \<Rightarrow> supercluster" where
  "reloaded e inp =
     (if differ e inp
      then load (map (project (objects inp)) (markers_in inp)) (superCluster e)
      else superCluster e)"

text \<open>
  The invariant of the index: once a marker list has been stored, the loaded points carry
  the marker objects of that list, in order.
\<close>

definition index_synced :: "engine \<Rightarrow> bool" where
  "index_synced e =
     (case markers e of
        None \<Rightarrow> True
      | Some stored \<Rightarrow> map marker_p (points (superCluster e)) = stored)"

text \<open>Every array allocated so far has a number below \<open>next_ref\<close>.\<close>

definition refs_allocated :: "engine \<Rightarrow> bool" where
  "refs_allocated e =
     (case clusters e of
        None \<Rightarrow> True
      | Some a \<Rightarrow> ref a < next_ref e)"

text \<open>The leaf cluster of one marker object, while the objects hold \<open>h\<close>.\<close>

definition leaf_of :: "(mref \<Rightarrow> marker) \<Rightarrow> mref \<Rightarrow> cluster" where
  "leaf_of h m = \<lparr>cluster_id = None, cluster_markers = [m], position = getPosition (h m)\<rparr>"

subsection \<open>Concrete inputs\<close>

text \<open>The map showing the box from (-10, -10) to (10, 10) at zoom \<open>z\<close>.\<close>

definition window :: "real \<Rightarrow> gmap" where
  "window z = view_of z (- 10) (- 10) 10 10"

text \<open>Two different markers at one position, and a marker outside the window.\<close>

definition twin_a :: marker where
  "twin_a = Marker ''a'' \<lparr>lat = 1, lng = 2\<rparr>"

definition twin_b :: marker where
  "twin_b = Marker ''b'' \<lparr>lat = 1, lng = 2\<rparr>"

definition far_marker :: marker where
  "far_marker = Marker ''far'' \<lparr>lat = 0, lng = 100\<rparr>"

text \<open>
  A store of marker objects: object 0 holds \<open>twin_a\<close>, object 1 holds \<open>twin_b\<close>, every other
  object holds \<open>far_marker\<close>. And the same store after \<^verbatim>\<open>setPosition\<close> has moved object 0 to
  latitude 5, longitude 6.
\<close>

definition album :: "mref \<Rightarrow> marker" where
  "album r = (if r = 0 then twin_a else if r = 1 then twin_b else far_marker)"

definition album_moved :: "mref \<Rightarrow> marker" where
  "album_moved r = (if r = 0 then Marker ''a'' \<lparr>lat = 5, lng = 6\<rparr> else album r)"

definition no_markers :: "real \<Rightarrow> algorithm_input" where
  "no_markers z = \<lparr>markers_in = [], objects = album, map_in = window z\<rparr>"

definition one_marker :: "mref \<Rightarrow> real \<Rightarrow> algorithm_input" where
  "one_marker m z = \<lparr>markers_in = [m], objects = album, map_in = window z\<rparr>"

text \<open>
  Scenarios on an engine constructed with \<^verbatim>\<open>maxZoom\<close> 16: after one call without markers
  at zoom 3; after one call with marker 0 at zoom 18, and the input that then moves the
  map, still beyond \<^verbatim>\<open>maxZoom\<close>; after one call with marker 0 at zoom 3, and the input
  that comes after the marker has been moved in place; after one call with the far
  marker 2 at zoom 18, and the input that then moves the map over that marker.
\<close>

definition seen_nothing :: engine where
  "seen_nothing = fst (calculate isolated_index whole_toString (new_engine 16) (no_markers 3))"

definition seen_twin_a :: engine where
  "seen_twin_a =
     fst (calculate isolated_index whole_toString (new_engine 16) (one_marker 0 18))"

definition moved_map :: algorithm_input where
  "moved_map = \<lparr>markers_in = [0], objects = album, map_in = view_of 19 0 0 5 5\<rparr>"

definition seen_before_move :: engine where
  "seen_before_move =
     fst (calculate isolated_index whole_toString (new_engine 16) (one_marker 0 3))"

definition after_move :: algorithm_input where
  "after_move = \<lparr>markers_in = [0], objects = album_moved, map_in = window 3\<rparr>"

definition seen_far :: engine where
  "seen_far = fst (calculate isolated_index whole_toString (new_engine 16) (one_marker 2 18))"

definition map_over_far :: algorithm_input where
  "map_over_far = \<lparr>markers_in = [2], objects = album, map_in = view_of 19 90 (- 10) 110 10\<rparr>"

text \<open>An index that answers expansion zoom 22 for every identifier.\<close>

definition deep_index :: library where
  "deep_index =
     \<lparr>getClusters = (\<lambda>ps bb z. []),
      getLeaves = (\<lambda>ps i. []),
      getClusterExpansionZoom = (\<lambda>ps i. Some 22)\<rparr>"

section \<open>What one call does\<close>

lemma calc_markers:
  "markers (fst (calculate lib str e inp)) =
     (if differ e inp then Some (markers_in inp) else markers e)"
  by (simp add: calculate_def Let_def split: prod.splits)

text \<open>After a call, the stored list is deep-equal to the list of that call.\<close>

lemma calc_not_differ: "\<not> differ (fst (calculate lib str e inp)) inp"
  by (cases "differ e inp"; cases "markers e") (simp_all add: differ_def calc_markers)

lemma calc_state: "state (fst (calculate lib str e inp)) = snapshot (map_in inp)"
  by (simp add: calculate_def Let_def split: prod.splits)

lemma calc_maxZoom: "maxZoom (fst (calculate lib str e inp)) = maxZoom e"
  by (simp add: calculate_def Let_def split: prod.splits)

lemma calc_out:
  "clusters_out (snd (calculate lib str e inp)) = clusters (fst (calculate lib str e inp))"
  by (simp add: calculate_def Let_def split: prod.splits)

text \<open>The call that does not recompute writes the snapshot and nothing else.\<close>

lemma calc_idle:
  "\<not> recompute e inp \<Longrightarrow>
   calculate lib str e inp =
     (e\<lparr>state := snapshot (map_in inp)\<rparr>, \<lparr>clusters_out = clusters e, changed = False\<rparr>)"
  by (simp add: calculate_def Let_def recompute_def split: if_splits)

text \<open>The call that recomputes.\<close>

lemma calc_busy:
  "recompute e inp \<Longrightarrow>
   calculate lib str e inp =
     (let cs = fst (cluster lib (objects inp) (reloaded e inp) (map_in inp)) in
      (e\<lparr>markers := (if differ e inp then Some (markers_in inp) else markers e),
         state := snapshot (map_in inp),
         superCluster := snd (cluster lib (objects inp) (reloaded e inp) (map_in inp)),
         clusters := Some \<lparr>ref = next_ref e, elems = cs\<rparr>,
         next_ref := Suc (next_ref e)\<rparr>,
       \<lparr>clusters_out = Some \<lparr>ref = next_ref e, elems = cs\<rparr>,
        changed = (case clusters e of
                     None \<Rightarrow> True
                   | Some old \<Rightarrow> map (summary str) cs \<noteq> map (summary str) (elems old))\<rparr>))"
  by (cases "clusters e")
    (auto simp add: calculate_def Let_def reloaded_def case_prod_beta)

lemma recompute_again: "\<not> recompute (fst (calculate lib str e inp)) inp"
  by (simp add: recompute_def calc_not_differ calc_state)

lemma cluster_points: "points (snd (cluster lib h sc m)) = points sc"
  by (simp add: cluster_def Let_def)

lemma cluster_calls:
  "calls (snd (cluster lib h sc m)) =
     calls sc @ GetClusters (getBoundingBox m) (round_js (getZoom m))
       # concat (map transform_calls
           (getClusters lib (points sc) (getBoundingBox m) (round_js (getZoom m))))"
  by (simp add: cluster_def Let_def)

lemma reloaded_points:
  "points (reloaded e inp) =
     (if differ e inp then map (project (objects inp)) (markers_in inp)
      else points (superCluster e))"
  by (simp add: reloaded_def load_def)

lemma reloaded_calls:
  "calls (reloaded e inp) =
     calls (superCluster e)
     @ (if differ e inp then [Load (map (project (objects inp)) (markers_in inp))] else [])"
  by (simp add: reloaded_def load_def)

lemma calc_superCluster:
  "superCluster (fst (calculate lib str e inp)) =
     (if recompute e inp then snd (cluster lib (objects inp) (reloaded e inp) (map_in inp))
      else superCluster e)"
  by (simp add: calc_busy calc_idle Let_def)

lemma idle_reloaded: "\<not> recompute e inp \<Longrightarrow> reloaded e inp = superCluster e"
  by (simp add: recompute_def reloaded_def split: if_splits)

lemma calc_points:
  "points (superCluster (fst (calculate lib str e inp))) = points (reloaded e inp)"
  by (cases "recompute e inp") (simp_all add: calc_superCluster cluster_points idle_reloaded)

subsection \<open>The index follows the stored markers on every run\<close>

lemma marker_p_project1: "marker_p (project h r) = r"
  by (simp add: project_def)

lemma marker_p_project: "map marker_p (map (project h) ms) = ms"
  by (simp add: o_def marker_p_project1)

lemma synced_new: "index_synced (new_engine mz)"
  by (simp add: index_synced_def new_engine_def)

lemma synced_step:
  assumes "index_synced e"
  shows "index_synced (fst (calculate lib str e inp))"
proof (cases "differ e inp")
  case True
  have "map marker_p (map (project (objects inp)) (markers_in inp)) = markers_in inp"
    by (rule marker_p_project)
  with True show ?thesis
    by (simp add: index_synced_def calc_markers calc_points reloaded_points del: map_map)
next
  case False
  with assms show ?thesis
    by (cases "markers e") (simp_all add: index_synced_def calc_markers calc_points reloaded_points)
qed

lemma synced_run: "index_synced e \<Longrightarrow> index_synced (run lib str e inps)"
  unfolding run_def
  by (induction inps arbitrary: e) (simp_all add: synced_step)

text \<open>
  After the first statement of \<^verbatim>\<open>calculate\<close>, every marker object in the index holds the
  data of some marker of the incoming list.
\<close>

lemma reloaded_members:
  assumes "index_synced e"
    and "r \<in> set (map marker_p (points (reloaded e inp)))"
  shows "objects inp r \<in> set (map (objects inp) (markers_in inp))"
proof (cases "differ e inp")
  case True
  have "map marker_p (map (project (objects inp)) (markers_in inp)) = markers_in inp"
    by (rule marker_p_project)
  with True assms(2) have "r \<in> set (markers_in inp)"
    by (simp add: reloaded_points del: map_map set_map)
  then show ?thesis by simp
next
  case False
  then obtain stored where s: "markers e = Some stored"
    and eq: "map (objects inp) (markers_in inp) = map (objects inp) stored"
    by (auto simp add: differ_def split: option.splits)
  from assms(1) s have "map marker_p (points (superCluster e)) = stored"
    by (simp add: index_synced_def)
  with assms(2) False have "r \<in> set stored"
    by (simp add: reloaded_points)
  then have "objects inp r \<in> set (map (objects inp) stored)"
    by simp
  with eq show ?thesis by simp
qed

subsection \<open>The calls that reach the index\<close>

lemma transform_calls_no_load: "filter is_load (concat (map transform_calls fs)) = []"
proof (induction fs)
  case Nil
  show ?case by simp
next
  case (Cons f fs)
  then show ?case by (cases f) simp_all
qed

lemma transform_calls_no_query: "filter is_query (concat (map transform_calls fs)) = []"
proof (induction fs)
  case Nil
  show ?case by simp
next
  case (Cons f fs)
  then show ?case by (cases f) simp_all
qed

lemma calc_calls:
  "calls (superCluster (fst (calculate lib str e inp))) =
     calls (superCluster e)
     @ (if differ e inp then [Load (map (project (objects inp)) (markers_in inp))] else [])
     @ (if recompute e inp
        then GetClusters (getBoundingBox (map_in inp)) (round_js (getZoom (map_in inp)))
             # concat (map transform_calls
                 (getClusters lib (points (reloaded e inp)) (getBoundingBox (map_in inp))
                    (round_js (getZoom (map_in inp)))))
        else [])"
  using idle_reloaded [of e inp]
  by (auto simp add: calc_superCluster cluster_calls reloaded_calls recompute_def)

lemma calc_new_calls:
  "new_calls (superCluster e) (superCluster (fst (calculate lib str e inp))) =
     (if differ e inp then [Load (map (project (objects inp)) (markers_in inp))] else [])
     @ (if recompute e inp
        then GetClusters (getBoundingBox (map_in inp)) (round_js (getZoom (map_in inp)))
             # concat (map transform_calls
                 (getClusters lib (points (reloaded e inp)) (getBoundingBox (map_in inp))
                    (round_js (getZoom (map_in inp)))))
        else [])"
  by (simp add: new_calls_def calc_calls)

subsection \<open>Array objects\<close>

lemma refs_new: "refs_allocated (new_engine mz)"
  by (simp add: refs_allocated_def new_engine_def)

lemma refs_step: "refs_allocated e \<Longrightarrow> refs_allocated (fst (calculate lib str e inp))"
  by (cases "recompute e inp")
    (auto simp add: calc_busy calc_idle Let_def refs_allocated_def split: option.splits)

text \<open>A recomputation stores an array that is not the one stored before.\<close>

lemma recompute_new_array:
  "refs_allocated e \<Longrightarrow> recompute e inp \<Longrightarrow>
   clusters (fst (calculate lib str e inp)) \<noteq> clusters e"
  by (auto simp add: calc_busy Let_def refs_allocated_def split: option.splits)

section \<open>The claims\<close>

text \<open>The definitions that evaluating a concrete scenario unfolds.\<close>

lemmas eval_defs =
  calculate_def recompute_def differ_def snapshot_def new_engine_def
  view_of_def window_def no_markers_def one_marker_def
  getBoundingBox_def gt_js_def load_def cluster_def isolated_index_def round_js_def Let_def
  project_def inside_def summary_def count_def whole_toString_def decimal_int_def decimal.simps
  twin_a_def twin_b_def far_marker_def album_def album_moved_def leaf_of_def

subsection \<open>C1: the same call twice\<close>

text \<open>
  C1. For every engine state, marker list and map: when \<^verbatim>\<open>calculate\<close> is called twice in a
  row with the same marker contents and the map reporting the same zoom and bounds, the
  second call returns \<open>changed = false\<close>. A new array with the same content is the same
  list, since the comparison is \<^verbatim>\<open>deepEqual\<close>.
\<close>

theorem calculate_twice_unchanged:
  "\<not> changed (snd (calculate lib str (fst (calculate lib str e inp)) inp))"
  by (simp add: calc_idle [OF recompute_again])

subsection \<open>C2: beyond the maximum zoom\<close>

text \<open>
  C2. When the marker list is unchanged, that is deep-equal to the stored one, and both
  the stored zoom and the current zoom are strictly above \<^verbatim>\<open>maxZoom\<close>, \<^verbatim>\<open>calculate\<close> returns
  \<open>changed = false\<close> and recomputes nothing: the stored cluster array is returned and
  kept, and the index receives no call. The bounds do not occur in the hypotheses.
\<close>

theorem beyond_maxZoom_no_recompute:
  assumes "markers e = Some stored"
    and "map (objects inp) (markers_in inp) = map (objects inp) stored"
    and "zoom (state e) = Some z"
    and "maxZoom e < z"
    and "maxZoom e < getZoom (map_in inp)"
  shows "\<not> changed (snd (calculate lib str e inp))
    \<and> clusters_out (snd (calculate lib str e inp)) = clusters e
    \<and> clusters (fst (calculate lib str e inp)) = clusters e
    \<and> superCluster (fst (calculate lib str e inp)) = superCluster e"
proof -
  from assms have "\<not> recompute e inp"
    by (simp add: recompute_def differ_def gt_js_def)
  then show ?thesis
    by (simp add: calc_idle)
qed

text \<open>
  C2 at a concrete input: \<^verbatim>\<open>maxZoom\<close> 16, the marker seen at zoom 18, then the map moved
  to other bounds at zoom 19.
\<close>

theorem beyond_maxZoom_no_recompute_witness:
  "markers seen_twin_a = Some (markers_in moved_map)
   \<and> map (objects moved_map) (markers_in moved_map)
       = map (objects moved_map) (markers_in moved_map)
   \<and> zoom (state seen_twin_a) = Some 18
   \<and> maxZoom seen_twin_a < 18
   \<and> maxZoom seen_twin_a < getZoom (map_in moved_map)
   \<and> boundingBox (state seen_twin_a) \<noteq> getBoundingBox (map_in moved_map)
   \<and> \<not> changed (snd (calculate isolated_index whole_toString seen_twin_a moved_map))
   \<and> clusters_out (snd (calculate isolated_index whole_toString seen_twin_a moved_map))
       = clusters seen_twin_a
   \<and> clusters (fst (calculate isolated_index whole_toString seen_twin_a moved_map))
       = clusters seen_twin_a
   \<and> superCluster (fst (calculate isolated_index whole_toString seen_twin_a moved_map))
       = superCluster seen_twin_a"
proof -
  have h1: "markers seen_twin_a = Some (markers_in moved_map)"
    by (simp add: seen_twin_a_def moved_map_def calc_markers one_marker_def differ_def
        new_engine_def)
  have h2: "map (objects moved_map) (markers_in moved_map)
      = map (objects moved_map) (markers_in moved_map)"
    by simp
  have h3: "zoom (state seen_twin_a) = Some 18"
    by (simp add: seen_twin_a_def calc_state snapshot_def one_marker_def window_def view_of_def)
  have h4: "maxZoom seen_twin_a < 18"
    by (simp add: seen_twin_a_def calc_maxZoom new_engine_def)
  have h5: "maxZoom seen_twin_a < getZoom (map_in moved_map)"
    by (simp add: seen_twin_a_def calc_maxZoom new_engine_def moved_map_def view_of_def)
  have h6: "boundingBox (state seen_twin_a) \<noteq> getBoundingBox (map_in moved_map)"
    by (simp add: seen_twin_a_def moved_map_def calc_state snapshot_def one_marker_def
        window_def view_of_def getBoundingBox_def)
  from beyond_maxZoom_no_recompute [OF h1 h2 h3 h4 h5, of isolated_index whole_toString]
    h1 h3 h4 h5 h6
  show ?thesis by simp
qed

subsection \<open>C3: when the summaries are compared\<close>

text \<open>
  C3, as stated, fails. The engine has seen an empty marker list at zoom 3 and stores an
  empty cluster array. The next call, at zoom 4, recomputes an empty cluster list; both
  lists are empty, the summaries are compared all the same, and \<open>changed\<close> goes back to
  false.
\<close>

theorem downgrade_on_empty_lists:
  "recompute seen_nothing (no_markers 4)
   \<and> clusters seen_nothing = Some \<lparr>ref = 0, elems = []\<rparr>
   \<and> clusters (fst (calculate isolated_index whole_toString seen_nothing (no_markers 4)))
       = Some \<lparr>ref = 1, elems = []\<rparr>
   \<and> \<not> changed (snd (calculate isolated_index whole_toString seen_nothing (no_markers 4)))"
  by (simp add: seen_nothing_def eval_defs)

text \<open>
  C3, amended. When \<^verbatim>\<open>calculate\<close> recomputes, the summaries are compared exactly when a
  cluster array has been stored before, empty or not: \<open>changed\<close> stays true when none is
  stored, and otherwise it is true exactly when the two summary sequences differ. When
  exactly one of the two lists is empty, \<open>changed\<close> stays true.
\<close>

theorem downgrade_when_stored:
  assumes "recompute e inp"
  shows "clusters (fst (calculate lib str e inp))
      = Some \<lparr>ref = next_ref e,
              elems = fst (cluster lib (objects inp) (reloaded e inp) (map_in inp))\<rparr>
    \<and> changed (snd (calculate lib str e inp)) =
        (case clusters e of
           None \<Rightarrow> True
         | Some old \<Rightarrow>
             map (summary str) (fst (cluster lib (objects inp) (reloaded e inp) (map_in inp)))
             \<noteq> map (summary str) (elems old))
    \<and> (case clusters e of
          None \<Rightarrow> True
        | Some old \<Rightarrow>
            (fst (cluster lib (objects inp) (reloaded e inp) (map_in inp)) = [])
              \<noteq> (elems old = [])
            \<longrightarrow> changed (snd (calculate lib str e inp)))"
proof -
  let ?cs = "fst (cluster lib (objects inp) (reloaded e inp) (map_in inp))"
  have a: "clusters (fst (calculate lib str e inp)) = Some \<lparr>ref = next_ref e, elems = ?cs\<rparr>"
    using assms by (simp add: calc_busy Let_def)
  have b: "changed (snd (calculate lib str e inp)) =
        (case clusters e of
           None \<Rightarrow> True
         | Some old \<Rightarrow> map (summary str) ?cs \<noteq> map (summary str) (elems old))"
    using assms by (simp add: calc_busy Let_def)
  have c: "(case clusters e of
          None \<Rightarrow> True
        | Some old \<Rightarrow>
            (?cs = []) \<noteq> (elems old = []) \<longrightarrow> changed (snd (calculate lib str e inp)))"
  proof (cases "clusters e")
    case None
    then show ?thesis by simp
  next
    case (Some old)
    have "map (summary str) ?cs \<noteq> map (summary str) (elems old)"
      if "(?cs = []) \<noteq> (elems old = [])"
    proof
      assume "map (summary str) ?cs = map (summary str) (elems old)"
      then have "length ?cs = length (elems old)"
        by (rule map_eq_imp_length_eq)
      with that show False by auto
    qed
    with Some b show ?thesis by simp
  qed
  from a b c show ?thesis by blast
qed

text \<open>
  C3 amended, at a concrete input: an empty array is stored, the call brings one marker
  inside the window, the new list has one leaf, and \<open>changed\<close> is true.
\<close>

theorem downgrade_when_stored_witness:
  "recompute seen_nothing (one_marker 0 3)
   \<and> clusters seen_nothing = Some \<lparr>ref = 0, elems = []\<rparr>
   \<and> fst (cluster isolated_index (objects (one_marker 0 3))
        (reloaded seen_nothing (one_marker 0 3)) (map_in (one_marker 0 3)))
       = [leaf_of album 0]
   \<and> clusters (fst (calculate isolated_index whole_toString seen_nothing (one_marker 0 3)))
       = Some \<lparr>ref = 1, elems = [leaf_of album 0]\<rparr>
   \<and> changed (snd (calculate isolated_index whole_toString seen_nothing (one_marker 0 3)))"
proof -
  have h: "recompute seen_nothing (one_marker 0 3)"
    by (simp add: seen_nothing_def eval_defs)
  have old: "clusters seen_nothing = Some \<lparr>ref = 0, elems = []\<rparr>"
    by (simp add: seen_nothing_def eval_defs)
  have nxt: "next_ref seen_nothing = 1"
    by (simp add: seen_nothing_def eval_defs)
  have new: "fst (cluster isolated_index (objects (one_marker 0 3))
        (reloaded seen_nothing (one_marker 0 3)) (map_in (one_marker 0 3)))
      = [leaf_of album 0]"
    by (simp add: seen_nothing_def reloaded_def eval_defs)
  from downgrade_when_stored [OF h, of isolated_index whole_toString] h old nxt new
  show ?thesis by simp
qed

subsection \<open>C4: the snapshot is always stored\<close>

text \<open>
  C4. After every call to \<^verbatim>\<open>calculate\<close>, whatever it reports, the stored viewport is the
  zoom and the bounds that the map reported in this call.
\<close>

theorem snapshot_stored_always:
  "state (fst (calculate lib str e inp)) =
     \<lparr>zoom = Some (getZoom (map_in inp)), boundingBox = getBoundingBox (map_in inp)\<rparr>"
  by (simp add: calc_state snapshot_def)

subsection \<open>C5: the zoom of the snapshot\<close>

text \<open>
  C5, as stated, fails. With the map at zoom 2.5 the stored zoom is 2.5, not the rounded
  zoom 3.
\<close>

theorem snapshot_zoom_not_rounded:
  "zoom (state (fst (calculate isolated_index whole_toString (new_engine 16)
       (one_marker 0 (5 / 2)))))
   \<noteq> Some (of_int (round_js (getZoom (map_in (one_marker 0 (5 / 2))))))"
  by (simp add: calc_state snapshot_def one_marker_def window_def view_of_def round_js_def)

text \<open>
  C5, amended. On every call the zoom recorded in the snapshot is the zoom as the map
  reports it, not rounded; the zoom rounded to an integer is what the index is queried
  with, in the one \<^verbatim>\<open>getClusters\<close> call of a recomputation.
\<close>

theorem snapshot_zoom_as_reported:
  "zoom (state (fst (calculate lib str e inp))) = Some (getZoom (map_in inp))
   \<and> filter is_query (new_calls (superCluster e) (superCluster (fst (calculate lib str e inp))))
     = (if recompute e inp
        then [GetClusters (getBoundingBox (map_in inp)) (round_js (getZoom (map_in inp)))]
        else [])"
  by (simp add: calc_state snapshot_def calc_new_calls transform_calls_no_query)

subsection \<open>C6: the expansion zoom\<close>

text \<open>
  C6. For a cluster with an identifier for which the index answers an expansion zoom
  \<open>z\<close>, both \<^verbatim>\<open>getExpansionZoom\<close> of the engine and the getter \<^verbatim>\<open>expansionZoom\<close> of the
  cluster give the minimum of \<open>z\<close> and 20, which is at most 20.
\<close>

theorem expansionZoom_capped:
  assumes "cluster_id c = Some i"
    and "getClusterExpansionZoom lib (points (superCluster e)) (Some i) = Some z"
  shows "getExpansionZoom lib e c = Some (min z 20)
    \<and> expansionZoom lib (superCluster e) c = Some (min z 20)
    \<and> min z 20 \<le> 20"
  using assms by (simp add: getExpansionZoom_def expansionZoom_def)

text \<open>C6 at a concrete input: the index answers 22, the expansion zoom is 20.\<close>

theorem expansionZoom_capped_witness:
  "cluster_id \<lparr>cluster_id = Some 7, cluster_markers = [0, 1],
                position = \<lparr>lat = 1, lng = 2\<rparr>\<rparr> = Some 7
   \<and> getClusterExpansionZoom deep_index (points (superCluster (new_engine 16))) (Some 7) = Some 22
   \<and> getExpansionZoom deep_index (new_engine 16)
        \<lparr>cluster_id = Some 7, cluster_markers = [0, 1],
         position = \<lparr>lat = 1, lng = 2\<rparr>\<rparr> = Some 20
   \<and> expansionZoom deep_index (superCluster (new_engine 16))
        \<lparr>cluster_id = Some 7, cluster_markers = [0, 1],
         position = \<lparr>lat = 1, lng = 2\<rparr>\<rparr> = Some 20"
proof -
  let ?c = "\<lparr>cluster_id = Some 7, cluster_markers = [0, 1],
             position = \<lparr>lat = 1, lng = 2\<rparr>\<rparr>"
  have h1: "cluster_id ?c = Some 7" by simp
  have h2: "getClusterExpansionZoom deep_index (points (superCluster (new_engine 16))) (Some 7)
      = Some 22"
    by (simp add: deep_index_def)
  from expansionZoom_capped [OF h1 h2] h1 h2 show ?thesis by simp
qed

subsection \<open>C7: the leaf cluster\<close>

text \<open>
  C7, as stated, fails in its last part, in two ways. First, a marker list with the
  single marker 2 at longitude 100, with the map showing the box from (-10, -10) to
  (10, 10): the query returns nothing for that box and \<^verbatim>\<open>calculate\<close> returns an empty
  cluster list, not one leaf. Second, after that call at zoom 18 with \<^verbatim>\<open>maxZoom\<close> 16, the
  map moves over the marker at zoom 19: a query would now return the marker's point, but
  the call does not query the index and returns the stored empty list again.
\<close>

theorem one_marker_no_cluster:
  "clusters_out (snd (calculate isolated_index whole_toString (new_engine 16)
      (one_marker 2 18))) = Some \<lparr>ref = 0, elems = []\<rparr>
   \<and> markers_in map_over_far = [2]
   \<and> getClusters isolated_index (points (superCluster seen_far))
        (getBoundingBox (map_in map_over_far)) (round_js (getZoom (map_in map_over_far)))
       = [PointFeature (100, 0) 2]
   \<and> clusters_out (snd (calculate isolated_index whole_toString seen_far map_over_far))
       = Some \<lparr>ref = 0, elems = []\<rparr>"
  by (simp add: seen_far_def map_over_far_def eval_defs)

text \<open>
  C7, amended. For every query result that is not flagged as an aggregate, the transform
  gives a leaf cluster whose members are exactly the single original marker, whose
  position is that marker's own position whatever coordinates \<open>xy\<close> the index reports,
  and whose count is 1. Consequently, on an engine that has gone through any sequence of
  calls since its construction, every call with a list of exactly one marker that
  queries the index yields exactly one such leaf cluster, provided the query returns
  the point loaded for that marker: the member of the leaf is the marker object \<open>r\<close> of
  that point, which holds the data of the marker \<open>m'\<close> of the list.
\<close>

theorem leaf_transform:
  "transformCluster lib h sc (PointFeature xy m) = leaf_of h m
   \<and> cluster_markers (leaf_of h m) = [m]
   \<and> position (leaf_of h m) = getPosition (h m)
   \<and> count (leaf_of h m) = 1
   \<and> cluster_id (leaf_of h m) = None
   \<and> (recompute (run lib str (new_engine mz) inps) inp
        \<and> markers_in inp = [m']
        \<and> getClusters lib (points (reloaded (run lib str (new_engine mz) inps) inp))
            (getBoundingBox (map_in inp)) (round_js (getZoom (map_in inp)))
            = [PointFeature xy' r]
        \<and> r \<in> set (map marker_p (points (reloaded (run lib str (new_engine mz) inps) inp)))
      \<longrightarrow> clusters_out (snd (calculate lib str (run lib str (new_engine mz) inps) inp))
            = Some \<lparr>ref = next_ref (run lib str (new_engine mz) inps),
                    elems = [leaf_of (objects inp) r]\<rparr>
          \<and> objects inp r = objects inp m')"
proof -
  let ?e = "run lib str (new_engine mz) inps"
  have t: "transformCluster lib h' sc' (PointFeature p k) = leaf_of h' k" for h' sc' p k
    by (cases p) (simp add: leaf_of_def)
  have "clusters_out (snd (calculate lib str ?e inp))
            = Some \<lparr>ref = next_ref ?e, elems = [leaf_of (objects inp) r]\<rparr>
          \<and> objects inp r = objects inp m'"
    if r: "recompute ?e inp"
      and one: "markers_in inp = [m']"
      and q: "getClusters lib (points (reloaded ?e inp))
            (getBoundingBox (map_in inp)) (round_js (getZoom (map_in inp)))
            = [PointFeature xy' r]"
      and mem: "r \<in> set (map marker_p (points (reloaded ?e inp)))"
  proof -
    have "fst (cluster lib (objects inp) (reloaded ?e inp) (map_in inp))
        = [leaf_of (objects inp) r]"
      using q by (simp add: cluster_def Let_def t)
    then have out: "clusters_out (snd (calculate lib str ?e inp))
        = Some \<lparr>ref = next_ref ?e, elems = [leaf_of (objects inp) r]\<rparr>"
      by (simp add: calc_busy [OF r] Let_def)
    have "index_synced ?e"
      by (rule synced_run [OF synced_new])
    from reloaded_members [OF this mem] one have "objects inp r = objects inp m'"
      by simp
    with out show ?thesis by simp
  qed
  with t show ?thesis
    by (simp add: leaf_of_def count_def)
qed

text \<open>
  C7 amended, at a concrete input: marker 0 at (lat 1, lng 2) has been seen at zoom 3;
  the next call, at zoom 4, queries the index without reloading it, the index returns
  the marker's point, and the result is its leaf.
\<close>

theorem leaf_transform_witness:
  "recompute (run isolated_index whole_toString (new_engine 16) [one_marker 0 3])
      (one_marker 0 4)
   \<and> markers_in (one_marker 0 4) = [0]
   \<and> getClusters isolated_index
        (points (reloaded (run isolated_index whole_toString (new_engine 16) [one_marker 0 3])
           (one_marker 0 4)))
        (getBoundingBox (map_in (one_marker 0 4))) (round_js (getZoom (map_in (one_marker 0 4))))
       = [PointFeature (2, 1) 0]
   \<and> 0 \<in> set (map marker_p
        (points (reloaded (run isolated_index whole_toString (new_engine 16) [one_marker 0 3])
           (one_marker 0 4))))
   \<and> clusters_out (snd (calculate isolated_index whole_toString
        (run isolated_index whole_toString (new_engine 16) [one_marker 0 3]) (one_marker 0 4)))
       = Some \<lparr>ref = 1, elems = [leaf_of album 0]\<rparr>
   \<and> position (leaf_of album 0) = \<lparr>lat = 1, lng = 2\<rparr>
   \<and> count (leaf_of album 0) = 1"
proof -
  let ?e = "run isolated_index whole_toString (new_engine 16) [one_marker 0 3]"
  have h1: "recompute ?e (one_marker 0 4)"
    by (simp add: run_def eval_defs)
  have h2: "markers_in (one_marker 0 4) = [0]"
    by (simp add: one_marker_def)
  have h3: "getClusters isolated_index (points (reloaded ?e (one_marker 0 4)))
      (getBoundingBox (map_in (one_marker 0 4))) (round_js (getZoom (map_in (one_marker 0 4))))
      = [PointFeature (2, 1) 0]"
    by (simp add: run_def reloaded_def eval_defs)
  have h4: "0 \<in> set (map marker_p (points (reloaded ?e (one_marker 0 4))))"
    by (simp add: run_def reloaded_def eval_defs)
  have n: "next_ref ?e = 1"
    by (simp add: run_def eval_defs)
  have o: "objects (one_marker 0 4) = album"
    by (simp add: one_marker_def)
  have p: "position (leaf_of album 0) = \<lparr>lat = 1, lng = 2\<rparr>"
    by (simp add: leaf_of_def album_def twin_a_def)
  from leaf_transform [of isolated_index album "superCluster ?e" "(2, 1)" 0
      whole_toString 16 "[one_marker 0 3]" "one_marker 0 4" 0 "(2, 1)" 0] h1 h2 h3 h4 n o p
  show ?thesis by simp
qed

subsection \<open>C8: the index and the latest markers\<close>

text \<open>
  C8, as stated, fails. Marker 0 is seen at (lat 1, lng 2) and loaded with coordinates
  (2, 1). The caller then moves the marker object to (lat 5, lng 6) and calls again with
  the same object: the stored array holds that object too, the deep comparison finds no
  difference, the index is not reloaded and keeps the point with coordinates (2, 1),
  which is not the projection (6, 5) of the marker list of this call.
\<close>

theorem moved_marker_not_reloaded:
  "points (superCluster (fst (calculate isolated_index whole_toString seen_before_move
      after_move))) = [\<lparr>coordinates = (2, 1), marker_p = 0\<rparr>]
   \<and> map (project (objects after_move)) (markers_in after_move)
       = [\<lparr>coordinates = (6, 5), marker_p = 0\<rparr>]
   \<and> points (superCluster (fst (calculate isolated_index whole_toString seen_before_move
        after_move)))
       \<noteq> map (project (objects after_move)) (markers_in after_move)
   \<and> new_calls (superCluster seen_before_move)
        (superCluster (fst (calculate isolated_index whole_toString seen_before_move
           after_move))) = []"
  by (simp add: seen_before_move_def after_move_def new_calls_def eval_defs)

text \<open>
  C8, amended. On an engine that has gone through any sequence of calls since its
  construction, after the next call to \<^verbatim>\<open>calculate\<close> the points loaded into the index carry
  exactly the marker objects of the stored list, in the same order, and these hold the
  same data, place by place, as the marker list of that call. The index is reloaded,
  once, exactly when the incoming marker list differs (deep, order-sensitive comparison)
  from the stored one; the loaded point set is then that list, each marker projected to
  the point with coordinates (longitude, latitude) that carries the marker, and
  otherwise it is the point set loaded before, with the coordinates read then.
\<close>

theorem index_holds_stored_markers:
  "markers (fst (calculate lib str (run lib str (new_engine mz) inps) inp))
     = Some (map marker_p
         (points (superCluster (fst (calculate lib str (run lib str (new_engine mz) inps) inp)))))
   \<and> map (objects inp) (map marker_p
         (points (superCluster (fst (calculate lib str (run lib str (new_engine mz) inps) inp)))))
     = map (objects inp) (markers_in inp)
   \<and> points (superCluster (fst (calculate lib str (run lib str (new_engine mz) inps) inp)))
     = (if differ (run lib str (new_engine mz) inps) inp
        then map (project (objects inp)) (markers_in inp)
        else points (superCluster (run lib str (new_engine mz) inps)))
   \<and> (\<forall>h m. coordinates (project h m) = (lng (getPosition (h m)), lat (getPosition (h m)))
           \<and> marker_p (project h m) = m)
   \<and> filter is_load
       (new_calls (superCluster (run lib str (new_engine mz) inps))
          (superCluster (fst (calculate lib str (run lib str (new_engine mz) inps) inp))))
     = (if differ (run lib str (new_engine mz) inps) inp
        then [Load (map (project (objects inp)) (markers_in inp))]
        else [])"
proof -
  let ?e = "run lib str (new_engine mz) inps"
  let ?e' = "fst (calculate lib str ?e inp)"
  have "index_synced ?e'"
    by (rule synced_step [OF synced_run [OF synced_new]])
  moreover have "\<not> differ ?e' inp"
    by (rule calc_not_differ)
  ultimately have a: "markers ?e' = Some (map marker_p (points (superCluster ?e')))"
    and b: "map (objects inp) (map marker_p (points (superCluster ?e')))
      = map (objects inp) (markers_in inp)"
    by (auto simp add: index_synced_def differ_def split: option.splits)
  have c: "points (superCluster ?e')
      = (if differ ?e inp then map (project (objects inp)) (markers_in inp)
         else points (superCluster ?e))"
    by (simp add: calc_points reloaded_points)
  have d: "\<forall>h m. coordinates (project h m) = (lng (getPosition (h m)), lat (getPosition (h m)))
      \<and> marker_p (project h m) = m"
    by (simp add: project_def)
  have f: "filter is_load (new_calls (superCluster ?e) (superCluster ?e'))
      = (if differ ?e inp then [Load (map (project (objects inp)) (markers_in inp))] else [])"
    by (simp add: calc_new_calls transform_calls_no_load)
  from a b c d f show ?thesis by blast
qed

subsection \<open>C9: no recomputation, same array\<close>

text \<open>
  C9. When a call to \<^verbatim>\<open>calculate\<close> finds neither the marker list nor the relevant
  viewport changed, the field \<^verbatim>\<open>clusters\<close> keeps its value, the index receives no call,
  and the returned cluster array is the array object that the previous call returned:
  the same allocation number and the same elements.
\<close>

theorem idle_returns_same_array:
  assumes "\<not> recompute (fst (calculate lib str e inp)) inp'"
  shows "clusters (fst (calculate lib str (fst (calculate lib str e inp)) inp'))
      = clusters (fst (calculate lib str e inp))
    \<and> clusters_out (snd (calculate lib str (fst (calculate lib str e inp)) inp'))
      = clusters_out (snd (calculate lib str e inp))
    \<and> superCluster (fst (calculate lib str (fst (calculate lib str e inp)) inp'))
      = superCluster (fst (calculate lib str e inp))"
  by (simp add: calc_idle [OF assms] calc_out)

text \<open>
  C9 at a concrete input: the marker seen at zoom 18 with \<^verbatim>\<open>maxZoom\<close> 16, then the map
  moved at zoom 19; the second call returns array 0 again.
\<close>

theorem idle_returns_same_array_witness:
  "\<not> recompute (fst (calculate isolated_index whole_toString (new_engine 16)
        (one_marker 0 18))) moved_map
   \<and> clusters_out (snd (calculate isolated_index whole_toString
        (fst (calculate isolated_index whole_toString (new_engine 16) (one_marker 0 18)))
        moved_map))
     = clusters_out (snd (calculate isolated_index whole_toString (new_engine 16)
        (one_marker 0 18)))
   \<and> clusters_out (snd (calculate isolated_index whole_toString (new_engine 16)
        (one_marker 0 18))) = Some \<lparr>ref = 0, elems = [leaf_of album 0]\<rparr>"
proof -
  have h: "\<not> recompute (fst (calculate isolated_index whole_toString (new_engine 16)
        (one_marker 0 18))) moved_map"
    by (simp add: moved_map_def eval_defs)
  have o: "clusters_out (snd (calculate isolated_index whole_toString (new_engine 16)
        (one_marker 0 18))) = Some \<lparr>ref = 0, elems = [leaf_of album 0]\<rparr>"
    by (simp add: eval_defs)
  from idle_returns_same_array [OF h] h o show ?thesis by simp
qed

subsection \<open>C10: the summary does not see the members\<close>

text \<open>
  C10. Two successive calls exist whose cluster lists differ in their member markers
  while the second returns \<open>changed = false\<close>: first marker 0, then the different marker
  1 at the same position. The second call recomputes, the new leaf holds marker 1
  instead of marker 0, and the summaries, made of position and count only, are equal,
  for every rendering \<open>str\<close> of positions and every \<^verbatim>\<open>maxZoom\<close>.
\<close>

theorem summary_blind_to_members:
  "recompute (fst (calculate isolated_index str (new_engine mz) (one_marker 0 3)))
     (one_marker 1 3)
   \<and> clusters (fst (calculate isolated_index str (new_engine mz) (one_marker 0 3)))
     = Some \<lparr>ref = 0, elems = [leaf_of album 0]\<rparr>
   \<and> clusters (fst (calculate isolated_index str
        (fst (calculate isolated_index str (new_engine mz) (one_marker 0 3)))
        (one_marker 1 3)))
     = Some \<lparr>ref = 1, elems = [leaf_of album 1]\<rparr>
   \<and> cluster_markers (leaf_of album 0) \<noteq> cluster_markers (leaf_of album 1)
   \<and> album 0 \<noteq> album 1
   \<and> summary str (leaf_of album 0) = summary str (leaf_of album 1)
   \<and> \<not> changed (snd (calculate isolated_index str
        (fst (calculate isolated_index str (new_engine mz) (one_marker 0 3)))
        (one_marker 1 3)))"
  by (simp add: calculate_def recompute_def differ_def snapshot_def new_engine_def
      view_of_def window_def one_marker_def getBoundingBox_def load_def cluster_def
      isolated_index_def round_js_def Let_def project_def inside_def summary_def count_def
      twin_a_def twin_b_def album_def leaf_of_def)

end
